theory Spec2Isabelle
  imports Main "HOL-Library.Char_ord" "HOL-Library.List_Lexorder"
begin

section \<open>Python string primitives used by the authentication manager\<close>

text \<open>
  A Python \<open>str\<close> is modelled as a \<open>string\<close>, each \<open>char\<close> standing for the code
  point of the same number (0 to 255). \<open>py_isspace\<close> is \<open>str.isspace\<close> on one
  character of that range: TAB, LF, VT, FF, CR, the separators 0x1C to 0x1F, the
  space, NEL (0x85) and the no-break space (0xA0). \<open>str.strip()\<close> without an
  argument removes exactly these characters at both ends.
\<close>

definition py_isspace :: "char \<Rightarrow> bool" where
  "py_isspace c =
     (let n = (of_char c :: nat)
      in (9 \<le> n \<and> n \<le> 13) \<or> (28 \<le> n \<and> n \<le> 32) \<or> n = 133 \<or> n = 160)"

definition strip :: "string \<Rightarrow> string" where
  "strip s = rev (dropWhile py_isspace (rev (dropWhile py_isspace s)))"

text \<open>
  \<open>raw.split(",")\<close>: every occurrence of the separator cuts; the result always
  has one more field than there are separators, so the empty string gives \<open>[""]\<close>.
\<close>

fun split_on :: "char \<Rightarrow> string \<Rightarrow> string list" where
  "split_on sep [] = [[]]"
| "split_on sep (c # cs) =
     (if c = sep then [] # split_on sep cs
      else (case split_on sep cs of
              [] \<Rightarrow> [[c]]
            | w # ws \<Rightarrow> (c # w) # ws))"

text \<open>\<open>sep.join(parts)\<close>.\<close>

fun join :: "string \<Rightarrow> string list \<Rightarrow> string" where
  "join sep [] = []"
| "join sep [x] = x"
| "join sep (x # y # ys) = x @ sep @ join sep (y # ys)"

section \<open>Role constants\<close>

definition DEFAULT_ROLE_SENTINEL :: string where
  "DEFAULT_ROLE_SENTINEL = ''none''"

definition VALID_ROLES :: "string list" where
  "VALID_ROLES = [''cybersec_eng'', ''data_analyst'', ''it_ops'', ''admin'']"

text \<open>The dict \<open>ROLE_REMAP\<close>, as its list of items; \<open>map_of\<close> is the lookup.\<close>

definition ROLE_REMAP :: "(string \<times> string) list" where
  "ROLE_REMAP =
     [(''cyber_analyst'', ''cybersec_eng''),
      (''cyber'', ''cybersec_eng''),
      (''data_scientist'', ''data_analyst'')]"

text \<open>\<open>ROLE_REMAP.get(role, role)\<close>.\<close>

definition remap_role :: "string \<Rightarrow> string" where
  "remap_role role = (case map_of ROLE_REMAP role of None \<Rightarrow> role | Some r \<Rightarrow> r)"

section \<open>Role serialisation\<close>

text \<open>
  \<open>AuthManager._serialise_roles\<close>: keep the valid roles, join them with a comma,
  and store the sentinel when nothing is left.
\<close>

definition serialise_roles :: "string list \<Rightarrow> string" where
  "serialise_roles roles =
     (let cleaned = filter (\<lambda>role. role \<in> set VALID_ROLES) roles
      in if cleaned \<noteq> [] then join '','' cleaned else DEFAULT_ROLE_SENTINEL)"

text \<open>
  \<open>AuthManager._parse_roles\<close>: the empty string and the sentinel give no roles;
  otherwise split at commas, strip each field, drop the empty fields, remap the
  legacy names and keep the valid roles.
\<close>

definition parse_roles :: "string \<Rightarrow> string list" where
  "parse_roles raw_roles =
     (if raw_roles = [] \<or> raw_roles = DEFAULT_ROLE_SENTINEL then []
      else
        (let cleaned = map strip (filter (\<lambda>role. strip role \<noteq> []) (split_on CHR '','' raw_roles));
             mapped = map remap_role cleaned
         in filter (\<lambda>role. role \<in> set VALID_ROLES) mapped))"


section \<open>The users table\<close>

text \<open>
  One row of the table \<open>users(id, username, password_hash, role)\<close> created by
  \<open>DatabaseManager.create_tables\<close>. The column \<open>id\<close> is the field \<open>row_id\<close>.
\<close>

record user_row =
  row_id :: int
  username :: string
  password_hash :: string
  role :: string

text \<open>
  The database file, as far as the authentication manager uses it. \<open>users_table\<close>
  is \<open>None\<close> as long as the table \<open>users\<close> has not been created: the constructor
  of \<open>DatabaseManager\<close> only makes the directory, \<open>Dashboard.py\<close> calls
  \<open>create_tables\<close> before it uses the table, and \<open>pages/Login.py\<close> does not.
  Otherwise it holds the rows in insertion order. \<open>autoinc_seq\<close> is the counter
  that SQLite keeps for the \<open>AUTOINCREMENT\<close> key: the largest id given out so far.

  A statement raises \<open>sqlite3.Error\<close> when the table is missing, when an insert
  repeats a username (\<open>UNIQUE\<close>) and when an insert finds the largest 64-bit id
  already used. Faults of the environment (an unreadable file, a full disk, a
  locked database) are not part of the model.
\<close>

record database =
  users_table :: "user_row list option"
  autoinc_seq :: int

text \<open>A file in which no table has been created yet.\<close>

definition no_table_db :: database where
  "no_table_db = \<lparr>users_table = None, autoinc_seq = 0\<rparr>"

text \<open>The rows of the table; there are none when there is no table.\<close>

definition users :: "database \<Rightarrow> user_row list" where
  "users db = (case users_table db of None \<Rightarrow> [] | Some rows \<Rightarrow> rows)"

text \<open>
  \<open>DatabaseManager.create_tables\<close>, for the table \<open>users\<close>:
  \<open>CREATE TABLE IF NOT EXISTS\<close> leaves an existing table as it is.
\<close>

definition create_tables :: "database \<Rightarrow> database" where
  "create_tables db =
     (case users_table db of
        None \<Rightarrow> db\<lparr>users_table := Some []\<rparr>
      | Some rows \<Rightarrow> db)"

definition empty_db :: database where
  "empty_db = create_tables no_table_db"

text \<open>The constraint \<open>username TEXT UNIQUE\<close>, as a property of a table state.\<close>

definition unique_usernames :: "database \<Rightarrow> bool" where
  "unique_usernames db = distinct (map username (users db))"

text \<open>
  The key \<open>id INTEGER PRIMARY KEY AUTOINCREMENT\<close> is a signed 64-bit integer.
  A new row gets one more than the largest id in the table or given out before;
  once the largest possible id has been used, SQLite refuses every insert
  (\<open>SQLITE_FULL\<close>).
\<close>

definition MAX_ROWID :: int where
  "MAX_ROWID = 9223372036854775807"

definition largest_rowid :: "database \<Rightarrow> int" where
  "largest_rowid db = max (autoinc_seq db) (foldr max (map row_id (users db)) 0)"

definition next_rowid :: "database \<Rightarrow> int" where
  "next_rowid db = largest_rowid db + 1"

text \<open>
  The statements that \<open>AuthManager\<close> passes to \<open>DatabaseManager.execute\<close>, each
  with its parameter tuple in the order of the source:
  \<^item> \<open>INSERT INTO users (username, password_hash, role) VALUES (?, ?, ?)\<close>
  \<^item> \<open>UPDATE users SET role = ? WHERE username = ?\<close>
  \<^item> \<open>UPDATE users SET password_hash = ? WHERE username = ?\<close>
  \<^item> \<open>DELETE FROM users WHERE username = ?\<close>
\<close>

datatype statement =
    InsertUser string string string
  | UpdateRole string string
  | UpdatePasswordHash string string
  | DeleteUser string

text \<open>
  \<open>DatabaseManager.execute\<close>: open a connection, run the statement, commit and
  return \<open>cursor.lastrowid\<close>; on \<open>sqlite3.Error\<close> print and return \<open>None\<close>,
  with nothing committed. After a successful insert \<open>lastrowid\<close> is the new id.
  After an UPDATE or DELETE it is the connection's last insert rowid, which is 0
  on the connection just opened, whether or not a row matched the WHERE clause.
\<close>

fun execute :: "database \<Rightarrow> statement \<Rightarrow> int option \<times> database" where
  "execute db (InsertUser u h r) =
     (case users_table db of
        None \<Rightarrow> (None, db)
      | Some rows \<Rightarrow>
          if u \<in> set (map username rows) \<or> MAX_ROWID \<le> largest_rowid db then (None, db)
          else
            (let n = next_rowid db
             in (Some n,
                 db\<lparr>users_table :=
                      Some (rows @ [\<lparr>row_id = n, username = u, password_hash = h, role = r\<rparr>]),
                    autoinc_seq := n\<rparr>)))"
| "execute db (UpdateRole r u) =
     (case users_table db of
        None \<Rightarrow> (None, db)
      | Some rows \<Rightarrow>
          (Some 0,
           db\<lparr>users_table :=
                Some (map (\<lambda>row. if username row = u then row\<lparr>role := r\<rparr> else row) rows)\<rparr>))"
| "execute db (UpdatePasswordHash h u) =
     (case users_table db of
        None \<Rightarrow> (None, db)
      | Some rows \<Rightarrow>
          (Some 0,
           db\<lparr>users_table :=
                Some (map (\<lambda>row. if username row = u then row\<lparr>password_hash := h\<rparr> else row)
                        rows)\<rparr>))"
| "execute db (DeleteUser u) =
     (case users_table db of
        None \<Rightarrow> (None, db)
      | Some rows \<Rightarrow>
          (Some 0, db\<lparr>users_table := Some (filter (\<lambda>row. username row \<noteq> u) rows)\<rparr>))"

text \<open>
  \<open>DatabaseManager.fetch_one\<close> on \<open>SELECT ... FROM users WHERE username = ?\<close>:
  the first matching row, or \<open>None\<close>; on \<open>sqlite3.Error\<close> it prints and returns
  \<open>None\<close> as well. The model returns the whole row; the callers read the columns
  that their query selects.
\<close>

definition fetch_one_user :: "database \<Rightarrow> string \<Rightarrow> user_row option" where
  "fetch_one_user db u =
     (case users_table db of
        None \<Rightarrow> None
      | Some rows \<Rightarrow> find (\<lambda>row. username row = u) rows)"

text \<open>
  \<open>DatabaseManager.fetch_all\<close> on
  \<open>SELECT id, username, role FROM users ORDER BY username\<close>: the rows in ascending
  order of the username (compared character by character, as SQLite's default
  collation does); on \<open>sqlite3.Error\<close> the empty list.
\<close>

definition fetch_all_users :: "database \<Rightarrow> user_row list" where
  "fetch_all_users db =
     (case users_table db of
        None \<Rightarrow> []
      | Some rows \<Rightarrow> sort_key username rows)"

section \<open>The bcrypt library\<close>

text \<open>
  \<open>bcrypt\<close> is an external library, taken as a parameter. \<open>hashpw B password salt\<close>
  is the hash string of a password under a salt, or \<open>None\<close> when the library
  raises (some versions refuse a password of more than 72 bytes);
  \<open>AuthManager\<close> does not catch that exception. \<open>checkpw B password hash\<close> is
  the result of the comparison, or \<open>None\<close> when the library raises \<open>ValueError\<close>
  (the stored string is not a bcrypt hash), which \<open>_verify_password\<close> catches.
  \<open>bcrypt.gensalt()\<close> draws a random salt; the operations that hash take the salt
  drawn as an argument.
\<close>

record bcrypt =
  hashpw :: "string \<Rightarrow> string \<Rightarrow> string option"
  checkpw :: "string \<Rightarrow> string \<Rightarrow> bool option"

text \<open>
  A stand-in for the library, to run the operations on concrete inputs: the hash
  is a dollar sign, the salt, a dollar sign and the password, and a password of
  more than 72 characters is refused.
\<close>

definition stub_bcrypt :: bcrypt where
  "stub_bcrypt =
     \<lparr>hashpw = (\<lambda>password salt.
         if 72 < length password then None else Some (''$'' @ salt @ ''$'' @ password)),
      checkpw = (\<lambda>password h.
         if h = [] \<or> hd h \<noteq> CHR ''$'' then None
         else Some (tl (dropWhile (\<lambda>c. c \<noteq> CHR ''$'') (tl h)) = password))\<rparr>"

section \<open>The authentication manager\<close>

text \<open>The class \<open>User\<close> of \<open>models/user.py\<close>, with its two getters.\<close>

datatype User = User (get_username: string) (get_roles: "string list")

text \<open>One dictionary of the list that \<open>get_all_users\<close> returns.\<close>

record user_entry =
  entry_id :: int
  entry_username :: string
  entry_role :: string
  entry_roles :: "string list"

text \<open>
  An exception that leaves an operation of \<open>AuthManager\<close>: the one raised by
  \<open>bcrypt.hashpw\<close>. An operation that can raise returns \<open>Inl\<close> of the exception
  or \<open>Inr\<close> of its result; when it raises, the database is as it was, since
  every hash is computed before the statement runs.
\<close>

datatype py_exception = HashpwError

text \<open>\<open>AuthManager._hash_password\<close>, with the salt that \<open>gensalt\<close> returned.\<close>

definition hash_password :: "bcrypt \<Rightarrow> string \<Rightarrow> string \<Rightarrow> string option" where
  "hash_password B salt password = hashpw B password salt"

text \<open>\<open>AuthManager._verify_password\<close>: a \<open>ValueError\<close> counts as a mismatch.\<close>

definition verify_password :: "bcrypt \<Rightarrow> string \<Rightarrow> string \<Rightarrow> bool" where
  "verify_password B password h =
     (case checkpw B password h of Some b \<Rightarrow> b | None \<Rightarrow> False)"

text \<open>
  \<open>AuthManager.register_user\<close>. The result is the returned pair and the database
  after the call. The value that \<open>execute\<close> returns is not looked at.
\<close>

definition register_user ::
  "bcrypt \<Rightarrow> string \<Rightarrow> database \<Rightarrow> string \<Rightarrow> string
   \<Rightarrow> py_exception + ((bool \<times> string) \<times> database)" where
  "register_user B salt db uname password =
     (let u = strip uname
      in if u = [] \<or> password = [] then
           Inr ((False, ''Username and password are required.''), db)
         else if fetch_one_user db u \<noteq> None then
           Inr ((False, ''Username already exists.''), db)
         else
           (case hash_password B salt password of
              None \<Rightarrow> Inl HashpwError
            | Some pw_hash \<Rightarrow>
                (let (result, db') = execute db (InsertUser u pw_hash DEFAULT_ROLE_SENTINEL)
                 in Inr ((True, ''Registration successful. Ask an admin to assign roles.''),
                         db'))))"

text \<open>\<open>AuthManager.create_user\<close>; \<open>roles or []\<close> turns a missing list into the empty one.\<close>

definition create_user ::
  "bcrypt \<Rightarrow> string \<Rightarrow> database \<Rightarrow> string \<Rightarrow> string \<Rightarrow> string list option
   \<Rightarrow> py_exception + ((bool \<times> string) \<times> database)" where
  "create_user B salt db uname password roles =
     (let u = strip uname
      in if u = [] \<or> password = [] then
           Inr ((False, ''Username and password are required.''), db)
         else if fetch_one_user db u \<noteq> None then
           Inr ((False, ''Username already exists.''), db)
         else
           (case hash_password B salt password of
              None \<Rightarrow> Inl HashpwError
            | Some pw_hash \<Rightarrow>
                (let stored_roles = serialise_roles (case roles of None \<Rightarrow> [] | Some rs \<Rightarrow> rs);
                     (result, db') = execute db (InsertUser u pw_hash stored_roles)
                 in Inr ((True, ''User created.''), db'))))"

text \<open>\<open>AuthManager.login_user\<close>; it reads the database and does not change it.\<close>

definition login_user :: "bcrypt \<Rightarrow> database \<Rightarrow> string \<Rightarrow> string \<Rightarrow> User option" where
  "login_user B db uname password =
     (let u = strip uname
      in if u = [] \<or> password = [] then None
         else
           (case fetch_one_user db u of
              None \<Rightarrow> None
            | Some row \<Rightarrow>
                if verify_password B password (password_hash row)
                then Some (User (username row) (parse_roles (role row)))
                else None))"

text \<open>\<open>AuthManager.get_all_users\<close>: every row, with its parsed roles added.\<close>

definition get_all_users :: "database \<Rightarrow> user_entry list" where
  "get_all_users db =
     map (\<lambda>row. \<lparr>entry_id = row_id row, entry_username = username row,
                  entry_role = role row, entry_roles = parse_roles (role row)\<rparr>)
         (fetch_all_users db)"

text \<open>\<open>AuthManager.update_user_roles\<close>.\<close>

definition update_user_roles :: "database \<Rightarrow> string \<Rightarrow> string list \<Rightarrow> bool \<times> database" where
  "update_user_roles db uname roles =
     (let serialised = serialise_roles roles;
          (result, db') = execute db (UpdateRole serialised uname)
      in (result \<noteq> None, db'))"

text \<open>\<open>AuthManager.update_user_password\<close>.\<close>

definition update_user_password ::
  "bcrypt \<Rightarrow> string \<Rightarrow> database \<Rightarrow> string \<Rightarrow> string \<Rightarrow> py_exception + (bool \<times> database)" where
  "update_user_password B salt db uname new_password =
     (if new_password = [] then Inr (False, db)
      else
        (case hash_password B salt new_password of
           None \<Rightarrow> Inl HashpwError
         | Some new_hash \<Rightarrow>
             (let (result, db') = execute db (UpdatePasswordHash new_hash uname)
              in Inr (result \<noteq> None, db'))))"

text \<open>\<open>AuthManager.delete_user\<close>.\<close>

definition delete_user :: "database \<Rightarrow> string \<Rightarrow> bool \<times> database" where
  "delete_user db uname =
     (if uname = ''admin'' then (False, db)
      else
        (let (result, db') = execute db (DeleteUser uname)
         in (result \<noteq> None, db')))"

text \<open>
  \<open>AuthManager.ensure_admin_user\<close>; it returns nothing, so the model returns the
  database. The value that \<open>execute\<close> returns is not looked at.
\<close>

definition ensure_admin_user :: "bcrypt \<Rightarrow> string \<Rightarrow> database \<Rightarrow> py_exception + database" where
  "ensure_admin_user B salt db =
     (if fetch_one_user db ''admin'' \<noteq> None then Inr db
      else
        (case hash_password B salt ''admin'' of
           None \<Rightarrow> Inl HashpwError
         | Some pw_hash \<Rightarrow> Inr (snd (execute db (InsertUser ''admin'' pw_hash ''admin'')))))"

section \<open>Table states for running the operations\<close>

text \<open>
  \<open>sample_db\<close> is the state after the first start (\<open>create_tables\<close> and
  \<open>ensure_admin_user\<close>), the registration of \<open>alice\<close> and the grant of
  \<open>data_analyst\<close> to her; \<open>sample_db_reached\<close> below replays these calls.
  \<open>legacy_db\<close> holds role strings that the present code never writes: legacy
  names, unknown names, spaces. In \<open>full_db\<close> the largest id has been used.
\<close>

definition sample_db :: database where
  "sample_db =
     \<lparr>users_table = Some
        [\<lparr>row_id = 1, username = ''admin'', password_hash = ''$s0$admin'', role = ''admin''\<rparr>,
         \<lparr>row_id = 2, username = ''alice'', password_hash = ''$s1$secret123'',
            role = ''data_analyst''\<rparr>],
      autoinc_seq = 2\<rparr>"

definition legacy_db :: database where
  "legacy_db =
     \<lparr>users_table = Some
        [\<lparr>row_id = 7, username = ''zoe'', password_hash = ''$s$pw'',
            role = ''cyber, bogus,admin''\<rparr>,
         \<lparr>row_id = 3, username = ''bob'', password_hash = ''$s$pw'', role = ''root''\<rparr>],
      autoinc_seq = 7\<rparr>"

definition full_db :: database where
  "full_db =
     \<lparr>users_table = Some
        [\<lparr>row_id = 9223372036854775807, username = ''carol'', password_hash = ''$s$pw'',
            role = ''it_ops''\<rparr>],
      autoinc_seq = 9223372036854775807\<rparr>"

section \<open>Properties of the serialisation\<close>

subsection \<open>Splitting, joining and stripping\<close>

lemma split_on_nonempty: "split_on sep s \<noteq> []"
  by (induction s) (auto split: list.splits)

lemma split_on_no_sep: "sep \<notin> set x \<Longrightarrow> split_on sep x = [x]"
  by (induction x) auto

lemma split_on_append_sep:
  "sep \<notin> set x \<Longrightarrow> split_on sep (x @ sep # rest) = x # split_on sep rest"
  by (induction x) auto

lemma split_on_join:
  "xs \<noteq> [] \<Longrightarrow> \<forall>x\<in>set xs. sep \<notin> set x \<Longrightarrow> split_on sep (join [sep] xs) = xs"
  by (induction "[sep]" xs rule: join.induct)
     (auto simp: split_on_no_sep split_on_append_sep)

lemma length_join_ge: "length x \<le> length (join sep (x # xs))"
  by (cases xs) auto

lemma strip_id:
  assumes "s \<noteq> []" "\<not> py_isspace (hd s)" "\<not> py_isspace (last s)"
  shows "strip s = s"
proof -
  have lead: "dropWhile py_isspace s = s"
    using assms(1,2) by (cases s) auto
  have "rev s \<noteq> []" "\<not> py_isspace (hd (rev s))"
    using assms(1,3) by (simp_all add: hd_rev)
  then have trail: "dropWhile py_isspace (rev s) = rev s"
    by (cases "rev s") auto
  show ?thesis by (simp add: strip_def lead trail)
qed

subsection \<open>The valid roles are fixed points of every parsing step\<close>

lemma valid_role_cases:
  "r \<in> set VALID_ROLES \<longleftrightarrow>
     r = ''cybersec_eng'' \<or> r = ''data_analyst'' \<or> r = ''it_ops'' \<or> r = ''admin''"
  by (simp add: VALID_ROLES_def)

lemma valid_role_no_comma: "r \<in> set VALID_ROLES \<Longrightarrow> CHR '','' \<notin> set r"
  unfolding valid_role_cases by auto

lemma valid_role_length: "r \<in> set VALID_ROLES \<Longrightarrow> 5 \<le> length r"
  unfolding valid_role_cases by auto

lemma valid_role_strip: "r \<in> set VALID_ROLES \<Longrightarrow> strip r = r"
  unfolding valid_role_cases
  by (elim disjE) (simp_all add: strip_id py_isspace_def)

lemma valid_role_remap: "r \<in> set VALID_ROLES \<Longrightarrow> remap_role r = r"
  unfolding valid_role_cases
  by (elim disjE) (simp_all add: remap_role_def ROLE_REMAP_def)

lemma parse_roles_valid: "set (parse_roles raw) \<subseteq> set VALID_ROLES"
  by (auto simp: parse_roles_def Let_def)

lemma parse_join_valid:
  assumes "xs \<noteq> []" "\<forall>x\<in>set xs. x \<in> set VALID_ROLES"
  shows "parse_roles (join '','' xs) = xs"
proof -
  obtain y ys where xs: "xs = y # ys"
    using assms(1) by (cases xs) auto
  have "5 \<le> length y"
    using assms(2) xs valid_role_length by simp
  then have "5 \<le> length (join '','' xs)"
    using length_join_ge [of y "'',''" ys] xs by simp
  then have ne: "join '','' xs \<noteq> []" "join '','' xs \<noteq> DEFAULT_ROLE_SENTINEL"
    by (auto simp: DEFAULT_ROLE_SENTINEL_def)
  have sp: "split_on CHR '','' (join '','' xs) = xs"
    using split_on_join [OF assms(1), of "CHR '',''"] assms(2) valid_role_no_comma
    by blast
  have f1: "filter (\<lambda>role. strip role \<noteq> []) xs = xs"
    using assms(2) valid_role_strip valid_role_length
    by (fastforce simp: filter_id_conv)
  have m1: "map strip xs = xs"
    using assms(2) valid_role_strip by (simp add: map_idI)
  have m2: "map remap_role xs = xs"
    using assms(2) valid_role_remap by (simp add: map_idI)
  have f2: "filter (\<lambda>role. role \<in> set VALID_ROLES) xs = xs"
    using assms(2) by (simp add: filter_id_conv)
  show ?thesis
    using ne by (simp add: parse_roles_def sp f1 m1 m2 f2)
qed

lemma role_remap_items:
  "map_of ROLE_REMAP L = Some R \<longleftrightarrow>
     (L = ''cyber_analyst'' \<and> R = ''cybersec_eng'')
     \<or> (L = ''cyber'' \<and> R = ''cybersec_eng'')
     \<or> (L = ''data_scientist'' \<and> R = ''data_analyst'')"
  by (auto simp: ROLE_REMAP_def split: if_splits)

lemma parse_single_field:
  assumes "raw \<noteq> []" "raw \<noteq> DEFAULT_ROLE_SENTINEL" "CHR '','' \<notin> set raw"
    and "strip raw = raw" "remap_role raw \<in> set VALID_ROLES"
  shows "parse_roles raw = [remap_role raw]"
  using assms by (simp add: parse_roles_def split_on_no_sep)

lemma serialise_roles_empty:
  "filter (\<lambda>role. role \<in> set VALID_ROLES) roles = [] \<Longrightarrow>
   serialise_roles roles = DEFAULT_ROLE_SENTINEL"
  by (simp add: serialise_roles_def)

lemma serialise_roles_nonempty:
  "filter (\<lambda>role. role \<in> set VALID_ROLES) roles \<noteq> [] \<Longrightarrow>
   serialise_roles roles = join '','' (filter (\<lambda>role. role \<in> set VALID_ROLES) roles)"
  by (simp add: serialise_roles_def)

lemma parse_sentinel: "parse_roles DEFAULT_ROLE_SENTINEL = []"
  by (simp add: parse_roles_def)

subsection \<open>Round trips\<close>

text \<open>
  C8: serialising the empty role list gives the sentinel string \<open>none\<close>, which is
  not the empty string, and parsing the sentinel gives the empty role list.
\<close>

theorem sentinel_roundtrip:
  "serialise_roles [] = ''none'' \<and> serialise_roles [] \<noteq> []
   \<and> serialise_roles [] = DEFAULT_ROLE_SENTINEL
   \<and> parse_roles DEFAULT_ROLE_SENTINEL = [] \<and> parse_roles ''none'' = []"
  by (simp add: serialise_roles_def parse_roles_def DEFAULT_ROLE_SENTINEL_def)

text \<open>
  C2: for every role list, parsing its serialisation gives back the entries of the
  list that are valid roles, in the order and with the multiplicity of the list
  (first conjunct), hence the same set of roles (second conjunct). Entries outside
  the valid set are dropped; both functions are total, so nothing is rejected.
\<close>

theorem parse_serialise_roles:
  "parse_roles (serialise_roles roles) = filter (\<lambda>role. role \<in> set VALID_ROLES) roles
   \<and> set (parse_roles (serialise_roles roles)) = set roles \<inter> set VALID_ROLES"
proof -
  let ?cleaned = "filter (\<lambda>role. role \<in> set VALID_ROLES) roles"
  have eq: "parse_roles (serialise_roles roles) = ?cleaned"
  proof (cases "?cleaned = []")
    case True
    have "parse_roles (serialise_roles roles) = []"
      by (simp only: serialise_roles_empty [OF True] parse_sentinel)
    with True show ?thesis by (simp only:)
  next
    case False
    have valid: "\<forall>x\<in>set ?cleaned. x \<in> set VALID_ROLES"
      by simp
    show ?thesis
      by (simp only: serialise_roles_nonempty [OF False] parse_join_valid [OF False valid])
  qed
  have "set ?cleaned = set roles \<inter> set VALID_ROLES"
    by auto
  with eq show ?thesis
    by (simp only:)
qed

text \<open>
  C9: for every key \<open>L\<close> of the legacy alias mapping \<open>ROLE_REMAP\<close> with value \<open>R\<close>,
  parsing the string \<open>L\<close> gives the one-element list \<open>[R]\<close>.
\<close>

theorem parse_legacy_alias:
  "map_of ROLE_REMAP L = Some R \<Longrightarrow> parse_roles L = [R]"
proof -
  assume "map_of ROLE_REMAP L = Some R"
  then consider "L = ''cyber_analyst''" "R = ''cybersec_eng''"
    | "L = ''cyber''" "R = ''cybersec_eng''"
    | "L = ''data_scientist''" "R = ''data_analyst''"
    unfolding role_remap_items by blast
  then show ?thesis
  proof cases
    case 1
    have "remap_role ''cyber_analyst'' = ''cybersec_eng''"
      by (simp add: remap_role_def ROLE_REMAP_def)
    then show ?thesis
      using 1 parse_single_field [of "''cyber_analyst''"]
      by (simp add: DEFAULT_ROLE_SENTINEL_def strip_id py_isspace_def VALID_ROLES_def)
  next
    case 2
    have "remap_role ''cyber'' = ''cybersec_eng''"
      by (simp add: remap_role_def ROLE_REMAP_def)
    then show ?thesis
      using 2 parse_single_field [of "''cyber''"]
      by (simp add: DEFAULT_ROLE_SENTINEL_def strip_id py_isspace_def VALID_ROLES_def)
  next
    case 3
    have "remap_role ''data_scientist'' = ''data_analyst''"
      by (simp add: remap_role_def ROLE_REMAP_def)
    then show ?thesis
      using 3 parse_single_field [of "''data_scientist''"]
      by (simp add: DEFAULT_ROLE_SENTINEL_def strip_id py_isspace_def VALID_ROLES_def)
  qed
qed

theorem parse_legacy_alias_witness:
  "map_of ROLE_REMAP ''cyber'' = Some ''cybersec_eng''
   \<and> parse_roles ''cyber'' = [''cybersec_eng'']"
proof -
  have key: "map_of ROLE_REMAP ''cyber'' = Some ''cybersec_eng''"
    by (simp add: ROLE_REMAP_def)
  show ?thesis
    using key parse_legacy_alias [OF key] by simp
qed

section \<open>Properties of the users table\<close>

lemma users_Some: "users_table db = Some rows \<Longrightarrow> users db = rows"
  by (simp add: users_def)

lemma users_None: "users_table db = None \<Longrightarrow> users db = []"
  by (simp add: users_def)

lemma table_exists: "users_table db \<noteq> None \<Longrightarrow> users_table db = Some (users db)"
  by (auto simp: users_def)

lemma fetch_one_user_find: "fetch_one_user db u = find (\<lambda>row. username row = u) (users db)"
  by (simp add: fetch_one_user_def users_def split: option.splits)

lemma fetch_one_user_None_iff:
  "fetch_one_user db u = None \<longleftrightarrow> u \<notin> username ` set (users db)"
  by (auto simp: fetch_one_user_find find_None_iff)

lemma fetch_one_user_table: "fetch_one_user db u \<noteq> None \<Longrightarrow> users_table db \<noteq> None"
  by (auto simp: fetch_one_user_def split: option.splits)

lemma execute_no_table: "users_table db = None \<Longrightarrow> execute db st = (None, db)"
  by (cases st) simp_all

lemma same_rows: "users_table db = Some rows \<Longrightarrow> db\<lparr>users_table := Some rows\<rparr> = db"
  by simp

lemma update_absent:
  assumes "fetch_one_user db u = None" "users_table db \<noteq> None"
  shows "execute db (UpdateRole r u) = (Some 0, db)"
    and "execute db (UpdatePasswordHash h u) = (Some 0, db)"
    and "execute db (DeleteUser u) = (Some 0, db)"
proof -
  have t: "users_table db = Some (users db)"
    using assms(2) by (rule table_exists)
  have no: "\<forall>row\<in>set (users db). username row \<noteq> u"
    using assms(1) by (auto simp: fetch_one_user_None_iff)
  then have "map (\<lambda>row. if username row = u then row\<lparr>role := r\<rparr> else row) (users db) = users db"
    by (simp add: map_idI)
  then show "execute db (UpdateRole r u) = (Some 0, db)"
    by (simp add: t same_rows [OF t])
  from no have "map (\<lambda>row. if username row = u then row\<lparr>password_hash := h\<rparr> else row) (users db) = users db"
    by (simp add: map_idI)
  then show "execute db (UpdatePasswordHash h u) = (Some 0, db)"
    by (simp add: t same_rows [OF t])
  from no have "filter (\<lambda>row. username row \<noteq> u) (users db) = users db"
    by (simp add: filter_id_conv)
  then show "execute db (DeleteUser u) = (Some 0, db)"
    by (simp add: t same_rows [OF t])
qed

lemma execute_delete_table:
  "users_table db \<noteq> None \<Longrightarrow>
   execute db (DeleteUser u)
     = (Some 0, db\<lparr>users_table := Some (filter (\<lambda>row. username row \<noteq> u) (users db))\<rparr>)"
  by (auto simp: users_def)

lemma fetch_after_delete:
  "fetch_one_user (snd (execute db (DeleteUser u))) u = None"
  by (cases "users_table db") (auto simp: fetch_one_user_def find_None_iff)

lemma find_append_absent: "find P xs = None \<Longrightarrow> find P (xs @ ys) = find P ys"
  by (induction xs) (auto split: if_splits)

lemma insert_absent:
  assumes "fetch_one_user db u = None" "users_table db \<noteq> None" "largest_rowid db < MAX_ROWID"
  shows "execute db (InsertUser u h r) =
           (Some (next_rowid db),
            db\<lparr>users_table := Some (users db @ [\<lparr>row_id = next_rowid db, username = u,
                                      password_hash = h, role = r\<rparr>]),
               autoinc_seq := next_rowid db\<rparr>)"
proof -
  have t: "users_table db = Some (users db)"
    using assms(2) by (rule table_exists)
  have "u \<notin> username ` set (users db)"
    using assms(1) by (simp add: fetch_one_user_None_iff)
  then show ?thesis
    using assms(3) by (simp add: t Let_def)
qed

lemma insert_refused:
  "fetch_one_user db u \<noteq> None \<or> users_table db = None \<or> MAX_ROWID \<le> largest_rowid db \<Longrightarrow>
   execute db (InsertUser u h r) = (None, db)"
  by (cases "users_table db") (auto simp: fetch_one_user_def find_None_iff)

lemma fetch_after_insert:
  assumes "fetch_one_user db u = None" "users_table db \<noteq> None" "largest_rowid db < MAX_ROWID"
  shows "fetch_one_user (snd (execute db (InsertUser u h r))) u
     = Some \<lparr>row_id = next_rowid db, username = u, password_hash = h, role = r\<rparr>"
proof -
  have f: "find (\<lambda>row. username row = u) (users db) = None"
    using assms(1) by (simp add: fetch_one_user_find)
  show ?thesis
    unfolding insert_absent [OF assms]
    by (simp add: fetch_one_user_def find_append_absent [OF f])
qed

lemma count_after_insert:
  assumes "fetch_one_user db u = None" "users_table db \<noteq> None" "largest_rowid db < MAX_ROWID"
  shows "length (filter (\<lambda>row. username row = u) (users (snd (execute db (InsertUser u h r))))) = 1"
proof -
  have "filter (\<lambda>row. username row = u) (users db) = []"
    using assms(1) by (auto simp: fetch_one_user_None_iff filter_empty_conv)
  then show ?thesis
    unfolding insert_absent [OF assms] by (simp add: users_def)
qed

lemma filter_key_distinct:
  "distinct (map f xs) \<Longrightarrow> u \<in> f ` set xs \<Longrightarrow> length (filter (\<lambda>x. f x = u) xs) = 1"
proof (induction xs)
  case Nil
  then show ?case by simp
next
  case (Cons a xs)
  show ?case
  proof (cases "f a = u")
    case True
    have "f a \<notin> f ` set xs"
      using Cons.prems(1) by simp
    with True have "\<forall>x\<in>set xs. f x \<noteq> u"
      by (auto simp: image_iff)
    then have "filter (\<lambda>x. f x = u) xs = []"
      by (simp add: filter_empty_conv)
    with True show ?thesis by simp
  next
    case False
    then show ?thesis
      using Cons by auto
  qed
qed

lemma count_unique:
  assumes "unique_usernames db" "fetch_one_user db u \<noteq> None"
  shows "length (filter (\<lambda>row. username row = u) (users db)) = 1"
  using assms filter_key_distinct [of username "users db" u]
  by (simp add: unique_usernames_def fetch_one_user_None_iff)

text \<open>Every statement keeps the usernames distinct, as the UNIQUE constraint demands.\<close>

lemma map_username_update:
  "(\<And>row. username (g row) = username row) \<Longrightarrow> map username (map g xs) = map username xs"
  by (induction xs) auto

lemma unique_usernames_execute:
  assumes "unique_usernames db"
  shows "unique_usernames (snd (execute db st))"
proof (cases "users_table db")
  case None
  then show ?thesis
    using assms by (simp add: execute_no_table)
next
  case (Some rows)
  have d: "distinct (map username rows)"
    using assms Some by (simp add: unique_usernames_def users_def)
  show ?thesis
  proof (cases st)
    case (InsertUser u h r)
    with d Some assms show ?thesis
      by (simp add: unique_usernames_def users_def Let_def)
  next
    case (UpdateRole r u)
    have "map username (map (\<lambda>row. if username row = u then row\<lparr>role := r\<rparr> else row) rows)
          = map username rows"
      by (rule map_username_update) simp
    with d Some UpdateRole show ?thesis
      by (simp add: unique_usernames_def users_def del: map_map)
  next
    case (UpdatePasswordHash h u)
    have "map username
            (map (\<lambda>row. if username row = u then row\<lparr>password_hash := h\<rparr> else row) rows)
          = map username rows"
      by (rule map_username_update) simp
    with d Some UpdatePasswordHash show ?thesis
      by (simp add: unique_usernames_def users_def del: map_map)
  next
    case (DeleteUser u)
    with d Some show ?thesis
      by (simp add: unique_usernames_def users_def distinct_map_filter)
  qed
qed

section \<open>The operations on concrete inputs\<close>

lemma empty_db_eq: "empty_db = \<lparr>users_table = Some [], autoinc_seq = 0\<rparr>"
  by (simp add: empty_db_def create_tables_def no_table_db_def)

lemma ensure_admin_first_start:
  "ensure_admin_user stub_bcrypt ''s0'' empty_db
     = Inr \<lparr>users_table = Some [\<lparr>row_id = 1, username = ''admin'',
                 password_hash = ''$s0$admin'', role = ''admin''\<rparr>], autoinc_seq = 1\<rparr>"
  by (simp add: ensure_admin_user_def empty_db_eq fetch_one_user_def hash_password_def
      stub_bcrypt_def next_rowid_def largest_rowid_def users_def MAX_ROWID_def)

lemma register_alice:
  "register_user stub_bcrypt ''s1''
     \<lparr>users_table = Some [\<lparr>row_id = 1, username = ''admin'',
          password_hash = ''$s0$admin'', role = ''admin''\<rparr>], autoinc_seq = 1\<rparr>
     '' alice'' ''secret123''
   = Inr ((True, ''Registration successful. Ask an admin to assign roles.''),
       \<lparr>users_table = Some
          [\<lparr>row_id = 1, username = ''admin'', password_hash = ''$s0$admin'', role = ''admin''\<rparr>,
           \<lparr>row_id = 2, username = ''alice'', password_hash = ''$s1$secret123'',
              role = ''none''\<rparr>],
        autoinc_seq = 2\<rparr>)"
  by (simp add: register_user_def fetch_one_user_def hash_password_def
      stub_bcrypt_def next_rowid_def largest_rowid_def users_def MAX_ROWID_def
      strip_def py_isspace_def DEFAULT_ROLE_SENTINEL_def)

lemma sample_db_reached:
  "update_user_roles
     \<lparr>users_table = Some
          [\<lparr>row_id = 1, username = ''admin'', password_hash = ''$s0$admin'', role = ''admin''\<rparr>,
           \<lparr>row_id = 2, username = ''alice'', password_hash = ''$s1$secret123'',
              role = ''none''\<rparr>],
        autoinc_seq = 2\<rparr>
     ''alice'' [''data_analyst'', ''bogus_role'']
   = (True, sample_db)"
  by (simp add: sample_db_def update_user_roles_def serialise_roles_def VALID_ROLES_def)

lemma strip_blank: "strip ''   '' = []"
  by (simp add: strip_def py_isspace_def)

lemma strip_alice: "strip '' alice '' = ''alice''"
  by (simp add: strip_def py_isspace_def)

lemma strip_ghost: "strip ''ghost'' = ''ghost''"
  by (simp add: strip_def py_isspace_def)

lemma strip_bob: "strip ''bob'' = ''bob''"
  by (simp add: strip_def py_isspace_def)

lemma fetch_sample_alice:
  "fetch_one_user sample_db ''alice''
     = Some \<lparr>row_id = 2, username = ''alice'', password_hash = ''$s1$secret123'',
             role = ''data_analyst''\<rparr>"
  by (simp add: fetch_one_user_def sample_db_def)

lemma fetch_sample_ghost: "fetch_one_user sample_db ''ghost'' = None"
  by (simp add: fetch_one_user_def sample_db_def)

lemma fetch_sample_bob: "fetch_one_user sample_db ''bob'' = None"
  by (simp add: fetch_one_user_def sample_db_def)

lemma table_sample_db: "users_table sample_db \<noteq> None"
  by (simp add: sample_db_def)

lemma room_sample_db: "largest_rowid sample_db < MAX_ROWID" "next_rowid sample_db = 3"
  by (simp_all add: next_rowid_def largest_rowid_def users_def sample_db_def MAX_ROWID_def)

lemma unique_sample_db: "unique_usernames sample_db"
  by (simp add: unique_usernames_def users_def sample_db_def)

lemma fetch_no_table: "fetch_one_user no_table_db u = None"
  by (simp add: fetch_one_user_def no_table_db_def)

lemma users_no_table: "users no_table_db = []"
  by (simp add: users_def no_table_db_def)

lemma fetch_full_admin: "fetch_one_user full_db ''admin'' = None"
  by (simp add: fetch_one_user_def full_db_def)

lemma full_db_full: "MAX_ROWID \<le> largest_rowid full_db"
  by (simp add: largest_rowid_def users_def full_db_def MAX_ROWID_def)

lemma verify_stub_right: "verify_password stub_bcrypt ''secret123'' ''$s1$secret123''"
  by (simp add: verify_password_def stub_bcrypt_def)

lemma verify_stub_wrong: "\<not> verify_password stub_bcrypt ''wrong'' ''$s1$secret123''"
  by (simp add: verify_password_def stub_bcrypt_def)

lemma hash_stub: "hashpw stub_bcrypt ''pw'' ''s2'' = Some ''$s2$pw''"
  "hashpw stub_bcrypt ''admin'' ''s0'' = Some ''$s0$admin''"
  "hashpw stub_bcrypt ''admin'' ''s9'' = Some ''$s9$admin''"
  "hashpw stub_bcrypt ''   '' ''s2'' = Some ''$s2$   ''"
  by (simp_all add: stub_bcrypt_def)

lemma parse_data_analyst: "parse_roles ''data_analyst'' = [''data_analyst'']"
  by (simp add: parse_roles_def DEFAULT_ROLE_SENTINEL_def strip_def py_isspace_def
      remap_role_def ROLE_REMAP_def VALID_ROLES_def)

lemma parse_legacy_row: "parse_roles ''cyber, bogus,admin'' = [''cybersec_eng'', ''admin'']"
  by (simp add: parse_roles_def DEFAULT_ROLE_SENTINEL_def strip_def py_isspace_def
      remap_role_def ROLE_REMAP_def VALID_ROLES_def)

section \<open>Properties of the authentication manager\<close>

subsection \<open>Login\<close>

text \<open>
  C1: \<open>login_user\<close> returns \<open>None\<close> when the username is empty after stripping,
  when the password is empty, when no row has the stripped username, and when the
  password does not verify against the stored hash; when it returns a user, the
  row of the stripped username exists, the password verifies against its hash,
  and the user carries the row's username and parsed roles.
\<close>

theorem login_user_fails_closed:
  "(strip uname = [] \<longrightarrow> login_user B db uname pw = None)
   \<and> (pw = [] \<longrightarrow> login_user B db uname pw = None)
   \<and> (fetch_one_user db (strip uname) = None \<longrightarrow> login_user B db uname pw = None)
   \<and> (\<forall>row. fetch_one_user db (strip uname) = Some row
          \<and> \<not> verify_password B pw (password_hash row)
        \<longrightarrow> login_user B db uname pw = None)
   \<and> (\<forall>usr. login_user B db uname pw = Some usr \<longrightarrow>
        (\<exists>row. strip uname \<noteq> [] \<and> pw \<noteq> []
           \<and> fetch_one_user db (strip uname) = Some row
           \<and> verify_password B pw (password_hash row)
           \<and> usr = User (username row) (parse_roles (role row))))"
  by (auto simp: login_user_def Let_def split: option.splits if_splits)

theorem login_user_fails_closed_witness:
  "login_user stub_bcrypt sample_db ''   '' ''secret123'' = None
   \<and> login_user stub_bcrypt sample_db '' alice '' '''' = None
   \<and> login_user stub_bcrypt sample_db ''ghost'' ''secret123'' = None
   \<and> login_user stub_bcrypt sample_db '' alice '' ''wrong'' = None
   \<and> login_user stub_bcrypt sample_db '' alice '' ''secret123''
       = Some (User ''alice'' [''data_analyst''])"
proof -
  have a: "login_user stub_bcrypt sample_db ''   '' ''secret123'' = None"
    using login_user_fails_closed [of "''   ''" stub_bcrypt sample_db "''secret123''"]
      strip_blank by blast
  have b: "login_user stub_bcrypt sample_db '' alice '' '''' = None"
    using login_user_fails_closed [of "'' alice ''" stub_bcrypt sample_db "''''"] by blast
  have c: "login_user stub_bcrypt sample_db ''ghost'' ''secret123'' = None"
    using login_user_fails_closed [of "''ghost''" stub_bcrypt sample_db "''secret123''"]
      fetch_sample_ghost strip_ghost by simp
  have d: "login_user stub_bcrypt sample_db '' alice '' ''wrong'' = None"
    using login_user_fails_closed [of "'' alice ''" stub_bcrypt sample_db "''wrong''"]
      fetch_sample_alice strip_alice verify_stub_wrong by simp
  have e: "login_user stub_bcrypt sample_db '' alice '' ''secret123''
       = Some (User ''alice'' [''data_analyst''])"
    by (simp add: login_user_def strip_alice fetch_sample_alice verify_stub_right
        parse_data_analyst)
  from a b c d e show ?thesis by blast
qed

subsection \<open>Registration: required fields\<close>

lemma register_user_fresh:
  assumes "strip uname \<noteq> []" "pw \<noteq> []" "fetch_one_user db (strip uname) = None"
    and "hashpw B pw salt = Some h"
  shows "register_user B salt db uname pw
           = Inr ((True, ''Registration successful. Ask an admin to assign roles.''),
                  snd (execute db (InsertUser (strip uname) h DEFAULT_ROLE_SENTINEL)))"
  using assms
  by (simp add: register_user_def Let_def split_beta hash_password_def del: execute.simps)

lemma register_user_taken:
  assumes "strip uname \<noteq> []" "pw \<noteq> []" "fetch_one_user db (strip uname) \<noteq> None"
  shows "register_user B salt db uname pw = Inr ((False, ''Username already exists.''), db)"
  using assms by (simp add: register_user_def Let_def)

text \<open>
  C3, as stated, fails: only the username is stripped. The password of three
  spaces is empty after stripping, yet the registration of \<open>bob\<close> with it
  succeeds and the row is created.
\<close>

theorem register_user_blank_password_counterexample:
  "strip ''   '' = []
   \<and> fetch_one_user sample_db ''bob'' = None
   \<and> register_user stub_bcrypt ''s2'' sample_db ''bob'' ''   ''
       = Inr ((True, ''Registration successful. Ask an admin to assign roles.''),
           \<lparr>users_table = Some
              [\<lparr>row_id = 1, username = ''admin'', password_hash = ''$s0$admin'',
                  role = ''admin''\<rparr>,
               \<lparr>row_id = 2, username = ''alice'', password_hash = ''$s1$secret123'',
                  role = ''data_analyst''\<rparr>,
               \<lparr>row_id = 3, username = ''bob'', password_hash = ''$s2$   '',
                  role = ''none''\<rparr>],
            autoinc_seq = 3\<rparr>)"
proof -
  have r: "register_user stub_bcrypt ''s2'' sample_db ''bob'' ''   ''
      = Inr ((True, ''Registration successful. Ask an admin to assign roles.''),
          snd (execute sample_db (InsertUser ''bob'' ''$s2$   '' DEFAULT_ROLE_SENTINEL)))"
    using register_user_fresh [of "''bob''" "''   ''" sample_db stub_bcrypt "''s2''" "''$s2$   ''"]
    by (simp add: strip_bob fetch_sample_bob hash_stub del: execute.simps)
  have i: "snd (execute sample_db (InsertUser ''bob'' ''$s2$   '' DEFAULT_ROLE_SENTINEL))
      = \<lparr>users_table = Some
              [\<lparr>row_id = 1, username = ''admin'', password_hash = ''$s0$admin'',
                  role = ''admin''\<rparr>,
               \<lparr>row_id = 2, username = ''alice'', password_hash = ''$s1$secret123'',
                  role = ''data_analyst''\<rparr>,
               \<lparr>row_id = 3, username = ''bob'', password_hash = ''$s2$   '',
                  role = ''none''\<rparr>],
            autoinc_seq = 3\<rparr>"
    unfolding insert_absent [OF fetch_sample_bob table_sample_db room_sample_db(1)]
    by (simp add: room_sample_db(2) DEFAULT_ROLE_SENTINEL_def) (simp add: sample_db_def users_def)
  show ?thesis
    by (simp only: r i strip_blank fetch_sample_bob simp_thms)
qed

text \<open>
  C3, amended: \<open>register_user\<close> returns \<open>False\<close> with the message that username
  and password are required whenever the username is empty after stripping or the
  password, as given, is the empty string; the table is then unchanged.
\<close>

theorem register_user_validation:
  "strip uname = [] \<or> pw = [] \<Longrightarrow>
   register_user B salt db uname pw
     = Inr ((False, ''Username and password are required.''), db)"
  by (auto simp: register_user_def)

theorem register_user_validation_witness:
  "register_user stub_bcrypt ''s2'' sample_db ''   '' ''pw''
     = Inr ((False, ''Username and password are required.''), sample_db)
   \<and> register_user stub_bcrypt ''s2'' sample_db ''bob'' ''''
     = Inr ((False, ''Username and password are required.''), sample_db)"
  using register_user_validation [of "''   ''" "''pw''" stub_bcrypt "''s2''" sample_db]
    register_user_validation [of "''bob''" "''''" stub_bcrypt "''s2''" sample_db]
    strip_blank
  by simp

subsection \<open>Operations on a username that has no row\<close>

lemma update_user_roles_result:
  "fetch_one_user db uname = None \<Longrightarrow>
   update_user_roles db uname roles = (users_table db \<noteq> None, db)"
proof (cases "users_table db = None")
  case True
  then show ?thesis
    by (simp add: update_user_roles_def execute_no_table del: execute.simps)
next
  case False
  assume "fetch_one_user db uname = None"
  from update_absent(1) [OF this False] False show ?thesis
    by (simp add: update_user_roles_def del: execute.simps)
qed

lemma update_user_password_result:
  "fetch_one_user db uname = None \<Longrightarrow> new_pw \<noteq> [] \<Longrightarrow> hashpw B new_pw salt = Some h \<Longrightarrow>
   update_user_password B salt db uname new_pw = Inr (users_table db \<noteq> None, db)"
proof (cases "users_table db = None")
  case True
  assume "new_pw \<noteq> []" "hashpw B new_pw salt = Some h"
  with True show ?thesis
    by (simp add: update_user_password_def hash_password_def execute_no_table
        del: execute.simps)
next
  case False
  assume "fetch_one_user db uname = None" "new_pw \<noteq> []" "hashpw B new_pw salt = Some h"
  with update_absent(2) [OF this(1) False] False show ?thesis
    by (simp add: update_user_password_def hash_password_def del: execute.simps)
qed

lemma delete_user_result:
  "fetch_one_user db uname = None \<Longrightarrow> uname \<noteq> ''admin'' \<Longrightarrow>
   delete_user db uname = (users_table db \<noteq> None, db)"
proof (cases "users_table db = None")
  case True
  assume "uname \<noteq> ''admin''"
  with True show ?thesis
    by (simp add: delete_user_def execute_no_table del: execute.simps)
next
  case False
  assume "fetch_one_user db uname = None" "uname \<noteq> ''admin''"
  with update_absent(3) [OF this(1) False] False show ?thesis
    by (simp add: delete_user_def del: execute.simps)
qed

text \<open>
  C4, as stated, fails: in \<open>sample_db\<close> no row is named \<open>ghost\<close>, and changing
  the roles, changing the password and deleting all return \<open>True\<close>, since an
  UPDATE or DELETE that matches no row is a successful statement.
\<close>

theorem unknown_username_counterexample:
  "fetch_one_user sample_db ''ghost'' = None
   \<and> update_user_roles sample_db ''ghost'' [''it_ops''] = (True, sample_db)
   \<and> update_user_password stub_bcrypt ''s2'' sample_db ''ghost'' ''pw'' = Inr (True, sample_db)
   \<and> delete_user sample_db ''ghost'' = (True, sample_db)"
  using update_user_roles_result [OF fetch_sample_ghost, of "[''it_ops'']"]
    update_user_password_result [OF fetch_sample_ghost _ hash_stub(1)]
    delete_user_result [OF fetch_sample_ghost]
  by (simp add: fetch_sample_ghost table_sample_db)

text \<open>
  C4, amended: when no row has the username, the three operations leave the
  database as it was and do not report the missing account. \<open>update_user_roles\<close>,
  \<open>update_user_password\<close> with a non-empty new password that bcrypt hashes, and
  \<open>delete_user\<close> of a username other than \<open>admin\<close> return whether the statement ran
  without an error: \<open>True\<close> when the table \<open>users\<close> exists (the statement then
  matches no row), \<open>False\<close> when it does not. \<open>update_user_password\<close> with the
  empty password and \<open>delete_user\<close> of \<open>admin\<close> return \<open>False\<close> without running
  a statement.
\<close>

theorem unknown_username_reports_write:
  "fetch_one_user db uname = None \<Longrightarrow>
   update_user_roles db uname roles = (users_table db \<noteq> None, db)
   \<and> (new_pw \<noteq> [] \<and> hashpw B new_pw salt \<noteq> None \<longrightarrow>
        update_user_password B salt db uname new_pw = Inr (users_table db \<noteq> None, db))
   \<and> (new_pw = [] \<longrightarrow> update_user_password B salt db uname new_pw = Inr (False, db))
   \<and> (uname \<noteq> ''admin'' \<longrightarrow> delete_user db uname = (users_table db \<noteq> None, db))
   \<and> (uname = ''admin'' \<longrightarrow> delete_user db uname = (False, db))"
proof -
  assume f: "fetch_one_user db uname = None"
  have a: "update_user_roles db uname roles = (users_table db \<noteq> None, db)"
    by (rule update_user_roles_result [OF f])
  have b: "update_user_password B salt db uname new_pw = Inr (users_table db \<noteq> None, db)"
    if "new_pw \<noteq> []" "hashpw B new_pw salt \<noteq> None"
    using that update_user_password_result [OF f] by auto
  have c: "update_user_password B salt db uname [] = Inr (False, db)"
    by (simp add: update_user_password_def)
  have d: "delete_user db uname = (users_table db \<noteq> None, db)" if "uname \<noteq> ''admin''"
    by (rule delete_user_result [OF f that])
  have e: "delete_user db ''admin'' = (False, db)"
    by (simp add: delete_user_def)
  from a b c d e show ?thesis by blast
qed

theorem unknown_username_reports_write_witness:
  "fetch_one_user sample_db ''ghost'' = None
   \<and> update_user_roles sample_db ''ghost'' [''it_ops''] = (True, sample_db)
   \<and> update_user_password stub_bcrypt ''s2'' sample_db ''ghost'' ''pw'' = Inr (True, sample_db)
   \<and> update_user_password stub_bcrypt ''s2'' sample_db ''ghost'' '''' = Inr (False, sample_db)
   \<and> delete_user sample_db ''ghost'' = (True, sample_db)
   \<and> fetch_one_user no_table_db ''ghost'' = None
   \<and> update_user_roles no_table_db ''ghost'' [''it_ops''] = (False, no_table_db)
   \<and> update_user_password stub_bcrypt ''s2'' no_table_db ''ghost'' ''pw''
       = Inr (False, no_table_db)
   \<and> delete_user no_table_db ''ghost'' = (False, no_table_db)"
proof -
  have nt: "users_table no_table_db = None"
    by (simp add: no_table_db_def)
  have h: "hashpw stub_bcrypt ''pw'' ''s2'' \<noteq> None"
    by (simp add: hash_stub)
  show ?thesis
    using unknown_username_reports_write [OF fetch_sample_ghost,
        of "[''it_ops'']" "''pw''" stub_bcrypt "''s2''"]
      unknown_username_reports_write [OF fetch_sample_ghost,
        of "[''it_ops'']" "''''" stub_bcrypt "''s2''"]
      unknown_username_reports_write [OF fetch_no_table [of "''ghost''"],
        of "[''it_ops'']" "''pw''" stub_bcrypt "''s2''"]
      fetch_sample_ghost fetch_no_table table_sample_db nt h
    by simp
qed

subsection \<open>Deleting a user\<close>

lemma get_all_users_usernames:
  "entry_username ` set (get_all_users db) = username ` set (users db)"
  by (cases "users_table db") (force simp: get_all_users_def fetch_all_users_def users_def)+

lemma delete_user_other:
  "uname \<noteq> ''admin'' \<Longrightarrow> users_table db \<noteq> None \<Longrightarrow>
   delete_user db uname = (True, snd (execute db (DeleteUser uname)))"
  by (auto simp: delete_user_def)

text \<open>
  C5: \<open>delete_user\<close> of \<open>admin\<close> returns \<open>False\<close> and leaves the table as it
  was; for any other username that has a row it returns \<open>True\<close>, and afterwards
  neither the lookup by that username nor the listing of all users finds it.
\<close>

theorem delete_user_admin_protected:
  "delete_user db ''admin'' = (False, db)
   \<and> (uname \<noteq> ''admin'' \<and> fetch_one_user db uname \<noteq> None \<longrightarrow>
        fst (delete_user db uname) = True
        \<and> fetch_one_user (snd (delete_user db uname)) uname = None
        \<and> uname \<notin> entry_username ` set (get_all_users (snd (delete_user db uname))))"
proof -
  have admin: "delete_user db ''admin'' = (False, db)"
    by (simp add: delete_user_def)
  have other: "fst (delete_user db uname) = True
        \<and> fetch_one_user (snd (delete_user db uname)) uname = None
        \<and> uname \<notin> entry_username ` set (get_all_users (snd (delete_user db uname)))"
    if "uname \<noteq> ''admin''" and ex: "fetch_one_user db uname \<noteq> None"
  proof -
    have t: "users_table db \<noteq> None"
      using ex by (rule fetch_one_user_table)
    have gone: "fetch_one_user (snd (execute db (DeleteUser uname))) uname = None"
      by (rule fetch_after_delete)
    then have "uname \<notin> username ` set (users (snd (execute db (DeleteUser uname))))"
      by (simp add: fetch_one_user_None_iff del: execute.simps)
    then show ?thesis
      using gone
      by (simp add: delete_user_other [OF that(1) t] get_all_users_usernames del: execute.simps)
  qed
  from admin other show ?thesis by blast
qed

theorem delete_user_admin_protected_witness:
  "delete_user sample_db ''admin'' = (False, sample_db)
   \<and> fetch_one_user sample_db ''alice'' \<noteq> None
   \<and> fst (delete_user sample_db ''alice'') = True
   \<and> fetch_one_user (snd (delete_user sample_db ''alice'')) ''alice'' = None
   \<and> ''alice'' \<notin> entry_username ` set (get_all_users (snd (delete_user sample_db ''alice'')))"
  using delete_user_admin_protected [of sample_db "''alice''"] fetch_sample_alice
  by simp

subsection \<open>The bootstrap admin\<close>

lemma ensure_admin_user_present:
  "fetch_one_user db ''admin'' \<noteq> None \<Longrightarrow> ensure_admin_user B salt db = Inr db"
  by (simp add: ensure_admin_user_def)

lemma ensure_admin_user_absent:
  "fetch_one_user db ''admin'' = None \<Longrightarrow> hashpw B ''admin'' salt = Some h \<Longrightarrow>
   ensure_admin_user B salt db = Inr (snd (execute db (InsertUser ''admin'' h ''admin'')))"
  by (simp add: ensure_admin_user_def hash_password_def del: execute.simps)

lemma ensure_admin_user_refused:
  assumes "fetch_one_user db ''admin'' = None" "hashpw B ''admin'' salt = Some h"
    and "users_table db = None \<or> MAX_ROWID \<le> largest_rowid db"
  shows "ensure_admin_user B salt db = Inr db"
  using assms(3) insert_refused [of db "''admin''" h "''admin''"]
  by (simp only: ensure_admin_user_absent [OF assms(1,2)]) auto

text \<open>
  C6, as stated, fails: the value that \<open>execute\<close> returns for the insert is not
  looked at, and the insert is refused when the table \<open>users\<close> has not been
  created (the login page calls \<open>ensure_admin_user\<close> without \<open>create_tables\<close>)
  and when the largest id has been used. From either state two calls leave the
  database as it was, with no row named \<open>admin\<close>.
\<close>

theorem ensure_admin_user_counterexample:
  "ensure_admin_user stub_bcrypt ''s0'' no_table_db = Inr no_table_db
   \<and> ensure_admin_user stub_bcrypt ''s9'' no_table_db = Inr no_table_db
   \<and> filter (\<lambda>row. username row = ''admin'') (users no_table_db) = []
   \<and> ensure_admin_user stub_bcrypt ''s0'' full_db = Inr full_db
   \<and> ensure_admin_user stub_bcrypt ''s9'' full_db = Inr full_db
   \<and> filter (\<lambda>row. username row = ''admin'') (users full_db) = []"
proof -
  have nt: "users_table no_table_db = None"
    by (simp add: no_table_db_def)
  have a: "ensure_admin_user stub_bcrypt ''s0'' no_table_db = Inr no_table_db"
    "ensure_admin_user stub_bcrypt ''s9'' no_table_db = Inr no_table_db"
    using nt by (simp_all add: ensure_admin_user_refused [OF fetch_no_table] hash_stub)
  have b: "ensure_admin_user stub_bcrypt ''s0'' full_db = Inr full_db"
    "ensure_admin_user stub_bcrypt ''s9'' full_db = Inr full_db"
    using full_db_full by (simp_all add: ensure_admin_user_refused [OF fetch_full_admin] hash_stub)
  have c: "filter (\<lambda>row. username row = ''admin'') (users full_db) = []"
    by (simp add: users_def full_db_def)
  from a b c show ?thesis
    by (simp add: users_no_table)
qed

lemma ensure_admin_user_inserted:
  assumes "fetch_one_user db ''admin'' = None" "users_table db \<noteq> None"
    "largest_rowid db < MAX_ROWID" "hashpw B ''admin'' salt = Some h"
  shows "\<exists>db1. ensure_admin_user B salt db = Inr db1
     \<and> fetch_one_user db1 ''admin'' \<noteq> None
     \<and> length (filter (\<lambda>row. username row = ''admin'') (users db1)) = 1"
proof -
  let ?db1 = "snd (execute db (InsertUser ''admin'' h ''admin''))"
  have "ensure_admin_user B salt db = Inr ?db1"
    by (rule ensure_admin_user_absent [OF assms(1,4)])
  moreover have "fetch_one_user ?db1 ''admin'' \<noteq> None"
    by (simp only: fetch_after_insert [OF assms(1-3)]) simp
  moreover have "length (filter (\<lambda>row. username row = ''admin'') (users ?db1)) = 1"
    by (rule count_after_insert [OF assms(1-3)])
  ultimately show ?thesis by blast
qed

text \<open>
  C6, amended: a call of \<open>ensure_admin_user\<close> on a table that has a row named
  \<open>admin\<close> changes nothing. From a state with unique usernames in which, if there
  is no \<open>admin\<close> row yet, the table \<open>users\<close> exists, an id is still free and
  bcrypt hashes the default password, the first of two calls returns a database
  with exactly one row named \<open>admin\<close>, and the second call leaves that database
  as it is.
\<close>

theorem ensure_admin_user_idempotent:
  "(fetch_one_user db ''admin'' \<noteq> None \<longrightarrow> ensure_admin_user B s1 db = Inr db)
   \<and> (unique_usernames db
        \<and> (fetch_one_user db ''admin'' = None \<longrightarrow>
             users_table db \<noteq> None \<and> largest_rowid db < MAX_ROWID
             \<and> hashpw B ''admin'' s1 \<noteq> None)
      \<longrightarrow> (\<exists>db1. ensure_admin_user B s1 db = Inr db1
             \<and> ensure_admin_user B s2 db1 = Inr db1
             \<and> length (filter (\<lambda>row. username row = ''admin'') (users db1)) = 1))"
proof -
  have present: "ensure_admin_user B s1 db = Inr db" if "fetch_one_user db ''admin'' \<noteq> None"
    by (rule ensure_admin_user_present [OF that])
  have twice: "\<exists>db1. ensure_admin_user B s1 db = Inr db1
             \<and> ensure_admin_user B s2 db1 = Inr db1
             \<and> length (filter (\<lambda>row. username row = ''admin'') (users db1)) = 1"
    if u: "unique_usernames db"
      and room: "fetch_one_user db ''admin'' = None \<longrightarrow>
             users_table db \<noteq> None \<and> largest_rowid db < MAX_ROWID
             \<and> hashpw B ''admin'' s1 \<noteq> None"
  proof (cases "fetch_one_user db ''admin'' = None")
    case True
    with room obtain h where "users_table db \<noteq> None" "largest_rowid db < MAX_ROWID"
      "hashpw B ''admin'' s1 = Some h"
      by auto
    from ensure_admin_user_inserted [OF True this]
    obtain db1 where "ensure_admin_user B s1 db = Inr db1"
      "fetch_one_user db1 ''admin'' \<noteq> None"
      "length (filter (\<lambda>row. username row = ''admin'') (users db1)) = 1"
      by blast
    with ensure_admin_user_present [of db1 B s2] show ?thesis
      by blast
  next
    case False
    with count_unique [OF u False] ensure_admin_user_present [OF False] show ?thesis
      by blast
  qed
  show ?thesis
  proof (intro conjI impI)
    assume "fetch_one_user db ''admin'' \<noteq> None"
    then show "ensure_admin_user B s1 db = Inr db"
      by (rule present)
  next
    assume a: "unique_usernames db
        \<and> (fetch_one_user db ''admin'' = None \<longrightarrow>
             users_table db \<noteq> None \<and> largest_rowid db < MAX_ROWID
             \<and> hashpw B ''admin'' s1 \<noteq> None)"
    show "\<exists>db1. ensure_admin_user B s1 db = Inr db1
             \<and> ensure_admin_user B s2 db1 = Inr db1
             \<and> length (filter (\<lambda>row. username row = ''admin'') (users db1)) = 1"
      by (rule twice [OF conjunct1 [OF a] conjunct2 [OF a]])
  qed
qed

theorem ensure_admin_user_idempotent_witness:
  "unique_usernames empty_db
   \<and> fetch_one_user empty_db ''admin'' = None
   \<and> users_table empty_db \<noteq> None \<and> largest_rowid empty_db < MAX_ROWID
   \<and> hashpw stub_bcrypt ''admin'' ''s0'' = Some ''$s0$admin''
   \<and> ensure_admin_user stub_bcrypt ''s0'' empty_db
       = Inr \<lparr>users_table = Some [\<lparr>row_id = 1, username = ''admin'',
                 password_hash = ''$s0$admin'', role = ''admin''\<rparr>], autoinc_seq = 1\<rparr>
   \<and> ensure_admin_user stub_bcrypt ''s9''
         \<lparr>users_table = Some [\<lparr>row_id = 1, username = ''admin'',
                 password_hash = ''$s0$admin'', role = ''admin''\<rparr>], autoinc_seq = 1\<rparr>
       = Inr \<lparr>users_table = Some [\<lparr>row_id = 1, username = ''admin'',
                 password_hash = ''$s0$admin'', role = ''admin''\<rparr>], autoinc_seq = 1\<rparr>
   \<and> ensure_admin_user stub_bcrypt ''s9'' sample_db = Inr sample_db"
proof -
  have u: "unique_usernames empty_db"
    by (simp add: unique_usernames_def users_def empty_db_eq)
  have f: "fetch_one_user empty_db ''admin'' = None"
    by (simp add: fetch_one_user_def empty_db_eq)
  have r: "users_table empty_db \<noteq> None" "largest_rowid empty_db < MAX_ROWID"
    by (simp_all add: largest_rowid_def users_def empty_db_eq MAX_ROWID_def)
  have h: "hashpw stub_bcrypt ''admin'' ''s0'' \<noteq> None"
    by (simp add: hash_stub)
  have s: "fetch_one_user sample_db ''admin'' \<noteq> None"
    by (simp add: fetch_one_user_def sample_db_def)
  show ?thesis
    using u f r h s hash_stub(2) ensure_admin_first_start
      ensure_admin_user_idempotent [of empty_db stub_bcrypt "''s0''" "''s9''"]
      ensure_admin_user_idempotent [of sample_db stub_bcrypt "''s9''" "''s9''"]
    by simp
qed

subsection \<open>Registration: duplicate usernames\<close>

text \<open>
  C7, as stated, fails: \<open>register_user\<close> does not look at the value that
  \<open>execute\<close> returns for the insert. Where the insert is refused (here: the table
  \<open>users\<close> has not been created, as on the login page before the dashboard has
  run) both calls return \<open>True\<close> with the message of a successful registration,
  the second one too, and no row is stored.
\<close>

theorem register_user_twice_counterexample:
  "register_user stub_bcrypt ''s2'' no_table_db ''bob'' ''pw''
     = Inr ((True, ''Registration successful. Ask an admin to assign roles.''), no_table_db)
   \<and> register_user stub_bcrypt ''s3'' no_table_db ''bob'' ''pw''
     = Inr ((True, ''Registration successful. Ask an admin to assign roles.''), no_table_db)
   \<and> fetch_one_user no_table_db ''bob'' = None"
proof -
  have nt: "users_table no_table_db = None"
    by (simp add: no_table_db_def)
  have h: "hashpw stub_bcrypt ''pw'' ''s2'' = Some ''$s2$pw''"
    "hashpw stub_bcrypt ''pw'' ''s3'' = Some ''$s3$pw''"
    by (simp_all add: stub_bcrypt_def)
  have n: "strip ''bob'' \<noteq> []" "''pw'' \<noteq> []"
    by (simp_all add: strip_bob)
  have f: "fetch_one_user no_table_db (strip ''bob'') = None"
    by (rule fetch_no_table)
  show ?thesis
    by (simp add: register_user_fresh [OF n f h(1)] register_user_fresh [OF n f h(2)]
        execute_no_table [OF nt] fetch_no_table del: execute.simps)
qed

text \<open>
  C7, amended: two calls of \<open>register_user\<close> with the same username, non-empty
  after stripping, and non-empty passwords, from a state in which the table
  \<open>users\<close> exists, no row has the username, an id is still free and bcrypt
  hashes the first password. The first call succeeds and stores a row with that
  username, the hash of the first password and no roles. The second call returns
  \<open>False\<close> with the message that the username already exists, and leaves the
  database exactly as the first call left it.
\<close>

theorem register_user_twice:
  "strip uname \<noteq> [] \<Longrightarrow> pw1 \<noteq> [] \<Longrightarrow> pw2 \<noteq> [] \<Longrightarrow>
   users_table db \<noteq> None \<Longrightarrow> fetch_one_user db (strip uname) = None \<Longrightarrow>
   largest_rowid db < MAX_ROWID \<Longrightarrow> hashpw B pw1 s1 = Some h \<Longrightarrow>
   \<exists>db1. register_user B s1 db uname pw1
            = Inr ((True, ''Registration successful. Ask an admin to assign roles.''), db1)
     \<and> fetch_one_user db1 (strip uname)
            = Some \<lparr>row_id = next_rowid db, username = strip uname,
                    password_hash = h, role = ''none''\<rparr>
     \<and> register_user B s2 db1 uname pw2 = Inr ((False, ''Username already exists.''), db1)"
proof -
  assume n: "strip uname \<noteq> []" and p1: "pw1 \<noteq> []" and p2: "pw2 \<noteq> []"
    and t: "users_table db \<noteq> None" and fresh: "fetch_one_user db (strip uname) = None"
    and room: "largest_rowid db < MAX_ROWID" and h: "hashpw B pw1 s1 = Some h"
  let ?db1 = "snd (execute db (InsertUser (strip uname) h DEFAULT_ROLE_SENTINEL))"
  have first: "register_user B s1 db uname pw1
      = Inr ((True, ''Registration successful. Ask an admin to assign roles.''), ?db1)"
    by (rule register_user_fresh [OF n p1 fresh h])
  have stored: "fetch_one_user ?db1 (strip uname)
      = Some \<lparr>row_id = next_rowid db, username = strip uname,
              password_hash = h, role = ''none''\<rparr>"
    by (simp only: fetch_after_insert [OF fresh t room] DEFAULT_ROLE_SENTINEL_def)
  then have "fetch_one_user ?db1 (strip uname) \<noteq> None"
    by (simp del: execute.simps)
  then have second: "register_user B s2 ?db1 uname pw2
      = Inr ((False, ''Username already exists.''), ?db1)"
    by (rule register_user_taken [OF n p2])
  from first stored second show ?thesis by blast
qed

theorem register_user_twice_witness:
  "strip ''bob'' = ''bob'' \<and> users_table sample_db \<noteq> None
   \<and> fetch_one_user sample_db ''bob'' = None \<and> largest_rowid sample_db < MAX_ROWID
   \<and> hashpw stub_bcrypt ''pw'' ''s2'' = Some ''$s2$pw''
   \<and> register_user stub_bcrypt ''s3''
         \<lparr>users_table = Some
              [\<lparr>row_id = 1, username = ''admin'', password_hash = ''$s0$admin'',
                  role = ''admin''\<rparr>,
               \<lparr>row_id = 2, username = ''alice'', password_hash = ''$s1$secret123'',
                  role = ''data_analyst''\<rparr>,
               \<lparr>row_id = 3, username = ''bob'', password_hash = ''$s2$pw'',
                  role = ''none''\<rparr>],
            autoinc_seq = 3\<rparr> ''bob'' ''other''
       = Inr ((False, ''Username already exists.''),
         \<lparr>users_table = Some
              [\<lparr>row_id = 1, username = ''admin'', password_hash = ''$s0$admin'',
                  role = ''admin''\<rparr>,
               \<lparr>row_id = 2, username = ''alice'', password_hash = ''$s1$secret123'',
                  role = ''data_analyst''\<rparr>,
               \<lparr>row_id = 3, username = ''bob'', password_hash = ''$s2$pw'',
                  role = ''none''\<rparr>],
            autoinc_seq = 3\<rparr>)"
proof -
  have n: "strip ''bob'' \<noteq> []" "''pw'' \<noteq> []" "''other'' \<noteq> []"
    by (simp_all add: strip_bob)
  have fresh: "fetch_one_user sample_db (strip ''bob'') = None"
    by (simp add: strip_bob fetch_sample_bob)
  have first: "register_user stub_bcrypt ''s2'' sample_db ''bob'' ''pw''
       = Inr ((True, ''Registration successful. Ask an admin to assign roles.''),
         \<lparr>users_table = Some
              [\<lparr>row_id = 1, username = ''admin'', password_hash = ''$s0$admin'',
                  role = ''admin''\<rparr>,
               \<lparr>row_id = 2, username = ''alice'', password_hash = ''$s1$secret123'',
                  role = ''data_analyst''\<rparr>,
               \<lparr>row_id = 3, username = ''bob'', password_hash = ''$s2$pw'',
                  role = ''none''\<rparr>],
            autoinc_seq = 3\<rparr>)"
    unfolding register_user_fresh [OF n(1,2) fresh hash_stub(1)] strip_bob
      insert_absent [OF fetch_sample_bob table_sample_db room_sample_db(1)]
    by (simp add: room_sample_db(2) DEFAULT_ROLE_SENTINEL_def) (simp add: sample_db_def users_def)
  from register_user_twice [OF n table_sample_db fresh room_sample_db(1) hash_stub(1),
      of "''s3''"]
  show ?thesis
    using first strip_bob table_sample_db fetch_sample_bob room_sample_db(1) hash_stub(1)
    by auto
qed

subsection \<open>Roles delivered to the callers\<close>

lemma login_user_SomeD:
  "login_user B db uname pw = Some usr \<Longrightarrow>
   \<exists>row. fetch_one_user db (strip uname) = Some row
     \<and> usr = User (username row) (parse_roles (role row))"
  by (auto simp: login_user_def Let_def split: if_splits option.splits)

text \<open>
  C10: whatever strings the role column holds, the roles of a user returned by
  \<open>login_user\<close> and the roles of every entry of \<open>get_all_users\<close> are all members
  of \<open>VALID_ROLES\<close>.
\<close>

theorem delivered_roles_valid:
  "(\<forall>usr. login_user B db uname pw = Some usr \<longrightarrow> set (get_roles usr) \<subseteq> set VALID_ROLES)
   \<and> (\<forall>e\<in>set (get_all_users db). set (entry_roles e) \<subseteq> set VALID_ROLES)"
proof -
  have login: "set (get_roles usr) \<subseteq> set VALID_ROLES"
    if lg: "login_user B db uname pw = Some usr" for usr
  proof -
    obtain row :: user_row where "usr = User (username row) (parse_roles (role row))"
      using login_user_SomeD [OF lg] by auto
    then show ?thesis
      using parse_roles_valid by simp
  qed
  have listing: "set (entry_roles e) \<subseteq> set VALID_ROLES" if mem: "e \<in> set (get_all_users db)" for e
  proof -
    obtain row :: user_row where "entry_roles e = parse_roles (role row)"
      using mem by (auto simp: get_all_users_def)
    then show ?thesis
      using parse_roles_valid by simp
  qed
  from login listing show ?thesis by blast
qed

lemma get_all_users_legacy:
  "get_all_users legacy_db =
     [\<lparr>entry_id = 3, entry_username = ''bob'', entry_role = ''root'', entry_roles = []\<rparr>,
      \<lparr>entry_id = 7, entry_username = ''zoe'', entry_role = ''cyber, bogus,admin'',
         entry_roles = [''cybersec_eng'', ''admin'']\<rparr>]"
proof -
  have "parse_roles ''root'' = []"
    by (simp add: parse_roles_def DEFAULT_ROLE_SENTINEL_def strip_def py_isspace_def
      remap_role_def ROLE_REMAP_def VALID_ROLES_def)
  moreover have "''bob'' \<le> ''zoe''" "\<not> ''zoe'' \<le> ''bob''"
    by (simp_all add: less_eq_char_def)
  ultimately show ?thesis
    by (simp add: get_all_users_def fetch_all_users_def legacy_db_def parse_legacy_row)
qed

lemma login_legacy:
  "login_user stub_bcrypt legacy_db ''zoe'' ''pw'' = Some (User ''zoe'' [''cybersec_eng'', ''admin''])"
  by (simp add: login_user_def strip_id py_isspace_def fetch_one_user_def legacy_db_def
      verify_password_def stub_bcrypt_def parse_legacy_row)

theorem delivered_roles_valid_witness:
  "login_user stub_bcrypt legacy_db ''zoe'' ''pw'' = Some (User ''zoe'' [''cybersec_eng'', ''admin''])
   \<and> ''cybersec_eng'' \<in> set VALID_ROLES \<and> ''admin'' \<in> set VALID_ROLES
   \<and> map entry_roles (get_all_users legacy_db) = [[], [''cybersec_eng'', ''admin'']]"
proof -
  have a: "set [''cybersec_eng'', ''admin''] \<subseteq> set VALID_ROLES"
    using delivered_roles_valid [of stub_bcrypt legacy_db "''zoe''" "''pw''"] login_legacy
    by fastforce
  have c: "map entry_roles (get_all_users legacy_db) = [[], [''cybersec_eng'', ''admin'']]"
    by (simp add: get_all_users_legacy)
  from a c login_legacy show ?thesis by simp
qed

end
